theory Spec2Isabelle
  imports Complex_Main
begin

section \<open>JavaScript values\<close>

text \<open>
  The claims of a session token are whatever JSON the token's payload segment holds, so
  they are modelled as JavaScript values. A finite number is the rational value of its
  double; \<open>JInf True\<close> and \<open>JInf False\<close> are \<^verbatim>\<open>Infinity\<close> and \<^verbatim>\<open>-Infinity\<close>, which
  \<^verbatim>\<open>JSON.parse\<close> returns for a literal beyond the range of the doubles. An object is
  the list of its own properties.
\<close>

datatype jsval =
    JUndefined
  | JNull
  | JBool bool
  | JNum rat
  | JInf bool
  | JStr string
  | JArr "jsval list"
  | JObj "(string \<times> jsval) list"

text \<open>Truthiness, as \<^verbatim>\<open>!v\<close>, \<^verbatim>\<open>a && b\<close> and \<^verbatim>\<open>a || b\<close> test it.\<close>

fun truthy :: "jsval \<Rightarrow> bool" where
  "truthy JUndefined = False"
| "truthy JNull = False"
| "truthy (JBool b) = b"
| "truthy (JNum n) = (n \<noteq> 0)"
| "truthy (JInf pos) = True"
| "truthy (JStr s) = (s \<noteq> [])"
| "truthy (JArr xs) = True"
| "truthy (JObj kvs) = True"

text \<open>
  \<^verbatim>\<open>v.k\<close> for the property names the source reads: an own property of an object,
  \<^verbatim>\<open>undefined\<close> otherwise (no prototype of an object or an array has one of these
  names, and on a string or a number the source reads only names that no prototype has).
  Reading a property of \<^verbatim>\<open>undefined\<close> or \<^verbatim>\<open>null\<close> throws in JavaScript;
  every caller below tests for that first.
\<close>

fun get_prop :: "jsval \<Rightarrow> string \<Rightarrow> jsval" where
  "get_prop (JObj kvs) k = (case map_of kvs k of Some v \<Rightarrow> v | None \<Rightarrow> JUndefined)"
| "get_prop v k = JUndefined"

text \<open>\<^verbatim>\<open>a || b\<close>\<close>

definition js_or :: "jsval \<Rightarrow> jsval \<Rightarrow> jsval" where
  "js_or a b = (if truthy a then a else b)"

text \<open>
  What the conversion of a value to a number (ECMAScript's ToNumber) yields. For strings,
  arrays and objects the conversion is a parameter of the model, \<open>to_number\<close>; it
  returns \<open>Inl m\<close> when it throws an error with message \<open>m\<close>, as it does for an object that
  has an own property \<^verbatim>\<open>toString\<close>.
\<close>

datatype js_number = NaN | Finite rat | Infinite bool

text \<open>
  \<^verbatim>\<open>v < r\<close> for a finite number \<open>r\<close>: the left operand is converted to a number, which
  may throw, and the two doubles are compared exactly. NaN compares false.
\<close>

definition js_lt :: "(jsval \<Rightarrow> string + js_number) \<Rightarrow> jsval \<Rightarrow> rat \<Rightarrow> string + bool" where
  "js_lt to_number v r =
     (case v of
        JNum n \<Rightarrow> Inr (n < r)
      | JInf pos \<Rightarrow> Inr (\<not> pos)
      | JBool b \<Rightarrow> Inr ((if b then 1 else 0) < r)
      | JNull \<Rightarrow> Inr (0 < r)
      | JUndefined \<Rightarrow> Inr False
      | _ \<Rightarrow>
          (case to_number v of
             Inl m \<Rightarrow> Inl m
           | Inr NaN \<Rightarrow> Inr False
           | Inr (Finite n) \<Rightarrow> Inr (n < r)
           | Inr (Infinite pos) \<Rightarrow> Inr (\<not> pos)))"

subsection \<open>The double \<^verbatim>\<open>Date.now() / 1000\<close>\<close>

text \<open>The number of binary digits of \<open>n\<close>.\<close>

fun bit_length :: "nat \<Rightarrow> nat" where
  "bit_length n = (if n = 0 then 0 else Suc (bit_length (n div 2)))"

declare bit_length.simps [simp del]

text \<open>The integer nearest to \<open>a / b\<close> for \<open>b > 0\<close>, a tie going to the even one.\<close>

definition round_half_even :: "int \<Rightarrow> int \<Rightarrow> int" where
  "round_half_even a b =
     (let q = a div b; r = a mod b in
      if 2 * r < b then q else if b < 2 * r then q + 1 else if even q then q else q + 1)"

text \<open>
  \<^verbatim>\<open>Date.now() / 1000\<close>: the clock reading is an integer number of milliseconds, and the
  quotient is the double nearest to \<open>now / 1000\<close> (IEEE 754 division, round to nearest,
  ties to even). With \<open>2 ^ e \<le> |now| / 1000 < 2 ^ (e + 1)\<close> the doubles around the quotient
  are the multiples of \<open>2 ^ (e - 52)\<close>. The quotient of a clock reading is far from the
  subnormal numbers and from overflow.
\<close>

definition div1000 :: "int \<Rightarrow> rat" where
  "div1000 now =
     (if now = 0 then 0
      else
        let n = int (bit_length (nat \<bar>now\<bar>));
            e = (if 1000 * 2 ^ nat (n - 10) \<le> \<bar>now\<bar> * 2 ^ nat (10 - n) then n - 10 else n - 11)
        in if e \<le> 52 then of_int (round_half_even (now * 2 ^ nat (52 - e)) 1000) / 2 ^ nat (52 - e)
           else of_int (round_half_even now (1000 * 2 ^ nat (e - 52))) * 2 ^ nat (e - 52))"

section \<open>The exchange endpoint: POST /api/web/initialize-session\<close>

text \<open>What \<^verbatim>\<open>jwt.decode(sessionToken, { complete: true })\<close> returns when it returns an object.\<close>

record decoded =
  header :: jsval
  payload :: jsval
  signature :: string

text \<open>The object the handler serialises into the session cookie.\<close>

record sessionData =
  userId :: jsval
  email :: jsval
  name :: jsval
  authenticatedAt :: int

text \<open>One \<^verbatim>\<open>res.cookie(name, value, options)\<close> call; \<open>maxAge\<close> is in milliseconds.\<close>

record cookie =
  cookie_name :: string
  cookie_value :: sessionData
  httpOnly :: bool
  secure :: bool
  sameSite :: string
  maxAge :: int

text \<open>The \<^verbatim>\<open>user\<close> object of the success body.\<close>

record user_info =
  user_name :: jsval
  user_email :: jsval
  user_username :: jsval

text \<open>
  The JSON bodies sent: the handler's \<^verbatim>\<open>{ error, details }\<close> and
  \<^verbatim>\<open>{ success, message, user }\<close>, and the error middleware's
  \<^verbatim>\<open>{ error, message }\<close>. A \<open>details\<close> or \<open>message\<close> of \<^verbatim>\<open>undefined\<close> is left out
  of the JSON, here \<open>None\<close>.
\<close>

datatype resp_body =
    NoBody
  | ErrorBody string "string option"
  | SuccessBody bool string user_info
  | InternalErrorBody string "string option"

text \<open>The response object \<^verbatim>\<open>res\<close>: status code, cookies set, JSON body sent.\<close>

record response =
  status :: nat
  cookies :: "cookie list"
  body :: resp_body

definition res0 :: response where
  "res0 = \<lparr>status = 200, cookies = [], body = NoBody\<rparr>"

text \<open>\<^verbatim>\<open>res.status(code).json({ error: e })\<close>\<close>

definition reject :: "nat \<Rightarrow> string \<Rightarrow> response" where
  "reject code e = res0\<lparr>status := code, body := ErrorBody e None\<rparr>"

text \<open>
  The handler's \<^verbatim>\<open>catch\<close> block, for an error with message \<open>m\<close>: the message is sent
  only when \<^verbatim>\<open>process.env.NODE_ENV\<close> is \<open>development\<close>.
\<close>

definition failed :: "string option \<Rightarrow> string \<Rightarrow> response" where
  "failed node_env m =
     res0\<lparr>status := 401,
          body := ErrorBody ''Session initialization failed''
                    (if node_env = Some ''development'' then Some m else None)\<rparr>"

text \<open>
  The handler's expiry check, \<^verbatim>\<open>payload.exp && payload.exp < Date.now() / 1000\<close>:
  \<open>Inr True\<close> when it fires, \<open>Inl m\<close> when the comparison throws.
\<close>

definition token_expired ::
  "(jsval \<Rightarrow> string + js_number) \<Rightarrow> int \<Rightarrow> jsval \<Rightarrow> string + bool" where
  "token_expired to_number now p =
     (if truthy (get_prop p ''exp'') then js_lt to_number (get_prop p ''exp'') (div1000 now)
      else Inr False)"

text \<open>The cookie and the body of the success path, from the payload \<open>p\<close>.\<close>

definition session_cookie :: "string option \<Rightarrow> int \<Rightarrow> jsval \<Rightarrow> cookie" where
  "session_cookie node_env now p =
     \<lparr>cookie_name = ''session'',
      cookie_value =
        \<lparr>userId = js_or (get_prop p ''sub'') (get_prop p ''oid''),
         email = js_or (get_prop p ''email'') (get_prop p ''preferred_username''),
         name = get_prop p ''name'',
         authenticatedAt = now\<rparr>,
      httpOnly = True,
      secure = (node_env = Some ''production''),
      sameSite = ''lax'',
      maxAge = 24 * 60 * 60 * 1000\<rparr>"

definition success_body :: "jsval \<Rightarrow> resp_body" where
  "success_body p =
     SuccessBody True ''Session initialized successfully''
       \<lparr>user_name = get_prop p ''name'',
        user_email = js_or (get_prop p ''email'') (get_prop p ''preferred_username''),
        user_username = js_or (get_prop p ''preferred_username'') (get_prop p ''email'')\<rparr>"

text \<open>
  The handler. Three library calls are parameters:
  \<^item> \<open>jwt_decode\<close> is \<^verbatim>\<open>jwt.decode(_, { complete: true })\<close>: \<open>Inl m\<close> when it throws an
    error with message \<open>m\<close>, \<open>Inr None\<close> when it returns \<^verbatim>\<open>null\<close>;
  \<^item> \<open>to_number\<close> is the conversion inside the expiry comparison, see \<open>js_lt\<close>;
  \<^item> \<open>res_cookie now c\<close> is Express's \<^verbatim>\<open>res.cookie\<close> writing the cookie \<open>c\<close> at the
    clock reading \<open>now\<close>: \<open>Some m\<close> when it throws an error with message \<open>m\<close> (as some
    versions do when the expiry date \<open>now + maxAge\<close> is past the last date JavaScript can
    represent), \<open>None\<close> when it sets the cookie.

  The three are all that can throw inside the \<^verbatim>\<open>try\<close> block. \<open>node_env\<close> is
  \<^verbatim>\<open>process.env.NODE_ENV\<close>, \<open>now\<close> is \<^verbatim>\<open>Date.now()\<close> in milliseconds (the readings
  of one call are taken to be equal) and \<open>req_body\<close> is \<^verbatim>\<open>req.body\<close>, the object the body
  parsers produce. The handler reads and writes nothing else: it has no store. What it
  prints on the console is left out.
\<close>

definition initialize_session ::
  "(jsval \<Rightarrow> string + decoded option) \<Rightarrow> (jsval \<Rightarrow> string + js_number) \<Rightarrow>
     (int \<Rightarrow> cookie \<Rightarrow> string option) \<Rightarrow> string option \<Rightarrow> int \<Rightarrow> jsval \<Rightarrow> response" where
  "initialize_session jwt_decode to_number res_cookie node_env now req_body =
     (let sessionToken = get_prop req_body ''sessionToken'' in
      if \<not> truthy sessionToken then reject 400 ''Session token required''
      else
        case jwt_decode sessionToken of
          Inl m \<Rightarrow> failed node_env m
        | Inr None \<Rightarrow> reject 401 ''Invalid session token format''
        | Inr (Some d) \<Rightarrow>
            if \<not> truthy (payload d) then reject 401 ''Invalid session token format''
            else
              let p = payload d in
              case token_expired to_number now p of
                Inl m \<Rightarrow> failed node_env m
              | Inr True \<Rightarrow> reject 401 ''Session token expired''
              | Inr False \<Rightarrow>
                  if get_prop p ''type'' \<noteq> JStr ''session_init'' then
                    reject 401 ''Invalid token type''
                  else
                    case res_cookie now (session_cookie node_env now p) of
                      Some m \<Rightarrow> failed node_env m
                    | None \<Rightarrow>
                        res0\<lparr>cookies := [session_cookie node_env now p],
                             body := success_body p\<rparr>)"

text \<open>
  The route as a whole. The body parsers run before the handler; when they fail (a body
  that is not JSON) the request goes to the error-handling middleware instead, which
  answers 500 and sends the parser's message only in development.
\<close>

datatype request = BodyError string | Body jsval

definition error_middleware :: "string option \<Rightarrow> string \<Rightarrow> response" where
  "error_middleware node_env m =
     res0\<lparr>status := 500,
          body := InternalErrorBody ''Internal server error''
                    (if node_env = Some ''development'' then Some m else None)\<rparr>"

definition endpoint ::
  "(jsval \<Rightarrow> string + decoded option) \<Rightarrow> (jsval \<Rightarrow> string + js_number) \<Rightarrow>
     (int \<Rightarrow> cookie \<Rightarrow> string option) \<Rightarrow> string option \<Rightarrow> int \<Rightarrow> request \<Rightarrow> response" where
  "endpoint jwt_decode to_number res_cookie node_env now req =
     (case req of
        BodyError m \<Rightarrow> error_middleware node_env m
      | Body req_body \<Rightarrow> initialize_session jwt_decode to_number res_cookie node_env now req_body)"

text \<open>A run of the server: the handler answers each call, given with its clock reading, in turn.\<close>

definition serve ::
  "(jsval \<Rightarrow> string + decoded option) \<Rightarrow> (jsval \<Rightarrow> string + js_number) \<Rightarrow>
     (int \<Rightarrow> cookie \<Rightarrow> string option) \<Rightarrow> string option \<Rightarrow> (int \<times> jsval) list \<Rightarrow> response list" where
  "serve jwt_decode to_number res_cookie node_env calls =
     map (\<lambda>(now, req_body). initialize_session jwt_decode to_number res_cookie node_env now req_body)
       calls"

section \<open>The Handoff Controller: handleSessionTokenExchange in app.js\<close>

text \<open>An \<^verbatim>\<open>Error\<close> object, as far as \<^verbatim>\<open>showDebugInfo\<close> reads it.\<close>

record js_error =
  err_message :: string
  err_name :: string
  err_stack :: string

text \<open>
  The \<^verbatim>\<open>Response\<close> of the exchange call: \<open>json\<close> is what \<^verbatim>\<open>response.json()\<close>
  settles to, \<open>Inl\<close> when it rejects.
\<close>

record http_response =
  ok :: bool
  json :: "js_error + jsval"

text \<open>How \<^verbatim>\<open>await fetch(...)\<close> settles: it rejects on a network error.\<close>

datatype fetch_outcome = Rejects js_error | Resolves http_response

text \<open>The object \<^verbatim>\<open>showDebugInfo\<close> prints into the debug panel.\<close>

record debugData =
  dbg_message :: string
  dbg_name :: string
  dbg_stack :: string
  dbg_timestamp :: int

record account =
  account_username :: jsval
  account_name :: jsval
  account_email :: jsval

datatype timer_action = ShowUnauthenticatedView

text \<open>
  What the user sees. \<open>search\<close> is \<^verbatim>\<open>window.location.search\<close> as
  \<^verbatim>\<open>URLSearchParams\<close> reads it, a list of parameters; \<open>debugInfo\<close> is the debug
  panel, \<open>None\<close> while it is hidden; \<open>userPanel\<close> stands for the user and token fields
  that \<^verbatim>\<open>handleAuthenticatedUser\<close> fills in; \<open>timers\<close> are the pending
  \<^verbatim>\<open>setTimeout\<close> calls with their delay in milliseconds. The console is not part of it.
\<close>

record 'u page =
  pathname :: string
  search :: "(string \<times> string) list"
  hash :: string
  loading :: bool
  statusText :: string
  statusError :: bool
  debugInfo :: "debugData option"
  unauthenticatedView :: bool
  authenticatedView :: bool
  userPanel :: 'u
  timers :: "(nat \<times> timer_action) list"

text \<open>\<^verbatim>\<open>urlParams.get('session_token')\<close>: the first value of the parameter, \<open>None\<close> for \<^verbatim>\<open>null\<close>.\<close>

definition checkForSessionTokenInUrl :: "'u page \<Rightarrow> string option" where
  "checkForSessionTokenInUrl p = map_of (search p) ''session_token''"

definition showLoading :: "bool \<Rightarrow> 'u page \<Rightarrow> 'u page" where
  "showLoading show p = p\<lparr>loading := show\<rparr>"

definition updateStatus :: "string \<Rightarrow> bool \<Rightarrow> 'u page \<Rightarrow> 'u page" where
  "updateStatus text isError p = p\<lparr>statusText := text, statusError := isError\<rparr>"

definition showDebugInfo :: "int \<Rightarrow> js_error \<Rightarrow> 'u page \<Rightarrow> 'u page" where
  "showDebugInfo now error p =
     p\<lparr>debugInfo :=
         Some \<lparr>dbg_message = (if err_message error = [] then ''Unknown error'' else err_message error),
               dbg_name = err_name error,
               dbg_stack = err_stack error,
               dbg_timestamp = now\<rparr>\<rparr>"

definition showAuthenticatedView :: "'u page \<Rightarrow> 'u page" where
  "showAuthenticatedView p =
     showLoading False (p\<lparr>unauthenticatedView := False, authenticatedView := True\<rparr>)"

definition showUnauthenticatedView :: "'u page \<Rightarrow> 'u page" where
  "showUnauthenticatedView p =
     showLoading False (p\<lparr>unauthenticatedView := True, authenticatedView := False\<rparr>)"

text \<open>
  \<^verbatim>\<open>handleAuthenticatedUser\<close>. Filling in the user fields (with \<^verbatim>\<open>getInitials\<close>)
  and the token fields (through the MSAL library) is the parameter \<open>show_user\<close>: it
  returns the panel and the error it threw, if any. A result \<open>(Some e, p)\<close> is the
  function throwing \<open>e\<close> with the page left as \<open>p\<close>.
\<close>

definition handleAuthenticatedUser ::
  "(account \<Rightarrow> 'u \<Rightarrow> 'u \<times> js_error option) \<Rightarrow> account \<Rightarrow> 'u page \<Rightarrow> js_error option \<times> 'u page" where
  "handleAuthenticatedUser show_user acct p =
     (case show_user acct (userPanel p) of
        (u, Some e) \<Rightarrow> (Some e, p\<lparr>userPanel := u\<rparr>)
      | (u, None) \<Rightarrow>
          (None, updateStatus ''Authenticated'' False (showAuthenticatedView (p\<lparr>userPanel := u\<rparr>))))"

definition nullish :: "jsval \<Rightarrow> bool" where
  "nullish v = (v = JUndefined \<or> v = JNull)"

text \<open>
  \<^verbatim>\<open>handleSessionTokenExchange\<close> up to its \<^verbatim>\<open>await fetch(...)\<close>: the page as it is
  while the exchange call is pending.
\<close>

definition exchange_pending :: "'u page \<Rightarrow> 'u page" where
  "exchange_pending p =
     updateStatus ''Initializing session from native app...'' False (showLoading True p)"

text \<open>The \<^verbatim>\<open>catch\<close> block, followed by the \<^verbatim>\<open>finally\<close> block.\<close>

definition exchange_failed :: "int \<Rightarrow> js_error \<Rightarrow> 'u page \<Rightarrow> 'u page" where
  "exchange_failed now error p =
     (let p1 = updateStatus ''Session initialization failed, redirecting to login...'' True p;
          p2 = showDebugInfo now error p1;
          p3 = p2\<lparr>timers := timers p2 @ [(2000, ShowUnauthenticatedView)]\<rparr>
      in showLoading False p3)"

text \<open>
  \<^verbatim>\<open>handleSessionTokenExchange\<close> from the moment the fetch settles. \<open>new_Error\<close> is the
  \<^verbatim>\<open>Error\<close> constructor and \<open>prop_TypeError v k\<close> the error the engine throws on
  reading property \<open>k\<close> of \<open>v\<close>, \<^verbatim>\<open>undefined\<close> or \<^verbatim>\<open>null\<close>.
  \<^verbatim>\<open>history.replaceState\<close> with \<^verbatim>\<open>pathname + hash\<close> empties the query string.
\<close>

definition exchange_settled ::
  "(jsval \<Rightarrow> js_error) \<Rightarrow> (jsval \<Rightarrow> string \<Rightarrow> js_error) \<Rightarrow>
     (account \<Rightarrow> 'u \<Rightarrow> 'u \<times> js_error option) \<Rightarrow> int \<Rightarrow> fetch_outcome \<Rightarrow> 'u page \<Rightarrow> 'u page" where
  "exchange_settled new_Error prop_TypeError show_user now outcome p =
     (case outcome of
        Rejects e \<Rightarrow> exchange_failed now e p
      | Resolves response \<Rightarrow>
          let p1 = p\<lparr>search := []\<rparr> in
          if ok response then
            (case json response of
               Inl e \<Rightarrow> exchange_failed now e p1
             | Inr data \<Rightarrow>
                 if nullish data then exchange_failed now (prop_TypeError data ''user'') p1
                 else
                   let user = get_prop data ''user'' in
                   if nullish user then exchange_failed now (prop_TypeError user ''email'') p1
                   else
                     let acct =
                       \<lparr>account_username =
                          js_or (js_or (get_prop user ''email'') (get_prop user ''username''))
                            (get_prop user ''name''),
                        account_name = get_prop user ''name'',
                        account_email = get_prop user ''email''\<rparr> in
                     (case handleAuthenticatedUser show_user acct p1 of
                        (Some e, p2) \<Rightarrow> exchange_failed now e p2
                      | (None, p2) \<Rightarrow>
                          showLoading False
                            (updateStatus ''Authenticated via native app'' False p2)))
          else
            let errorData =
              (case json response of
                 Inl e \<Rightarrow> JObj [(''error'', JStr ''Session initialization failed'')]
               | Inr v \<Rightarrow> v) in
            if nullish errorData then exchange_failed now (prop_TypeError errorData ''error'') p1
            else
              exchange_failed now
                (new_Error (js_or (get_prop errorData ''error'')
                              (JStr ''Session initialization failed''))) p1)"

text \<open>
  The whole function. The token itself only goes into the body of the request; \<open>outcome\<close>
  is how that request settles.
\<close>

definition handleSessionTokenExchange ::
  "(jsval \<Rightarrow> js_error) \<Rightarrow> (jsval \<Rightarrow> string \<Rightarrow> js_error) \<Rightarrow>
     (account \<Rightarrow> 'u \<Rightarrow> 'u \<times> js_error option) \<Rightarrow> int \<Rightarrow> fetch_outcome \<Rightarrow> 'u page \<Rightarrow> 'u page" where
  "handleSessionTokenExchange new_Error prop_TypeError show_user now outcome p =
     exchange_settled new_Error prop_TypeError show_user now outcome (exchange_pending p)"

section \<open>Sample inputs\<close>

text \<open>
  A decoder for a handful of tokens, named by short strings: the claims of a user, of kind
  \<open>kind\<close>, with the \<open>exp\<close> claim given (in seconds) or left out.
\<close>

definition sample_header :: jsval where
  "sample_header = JObj [(''alg'', JStr ''none''), (''typ'', JStr ''JWT'')]"

definition sample_claims :: "string \<Rightarrow> jsval list \<Rightarrow> jsval" where
  "sample_claims kind exps =
     JObj ([(''type'', JStr kind), (''sub'', JStr ''u-1''), (''name'', JStr ''Alice''),
            (''email'', JStr ''alice@example.com''), (''jti'', JStr ''t-1'')] @
           map (Pair ''exp'') exps)"

text \<open>The double nearest to 100.002, the value of the JSON number \<^verbatim>\<open>100.002\<close>.\<close>

definition double_100_002 :: rat where
  "double_100_002 = 7037015155254755 / 70368744177664"

definition sample_decode :: "jsval \<Rightarrow> string + decoded option" where
  "sample_decode t =
     (if t = JStr ''alice-160'' then
        Inr (Some \<lparr>header = sample_header, payload = sample_claims ''session_init'' [JNum 160],
                   signature = ''c2ln''\<rparr>)
      else if t = JStr ''alice-160-unsigned'' then
        Inr (Some \<lparr>header = sample_header, payload = sample_claims ''session_init'' [JNum 160],
                   signature = []\<rparr>)
      else if t = JStr ''alice-noexp'' then
        Inr (Some \<lparr>header = sample_header, payload = sample_claims ''session_init'' [],
                   signature = ''c2ln''\<rparr>)
      else if t = JStr ''alice-100.002'' then
        Inr (Some \<lparr>header = sample_header,
                   payload = sample_claims ''session_init'' [JNum double_100_002],
                   signature = ''c2ln''\<rparr>)
      else if t = JStr ''access-160'' then
        Inr (Some \<lparr>header = sample_header, payload = sample_claims ''access'' [JNum 160],
                   signature = ''c2ln''\<rparr>)
      else if t = JStr ''access-100.002'' then
        Inr (Some \<lparr>header = sample_header,
                   payload = sample_claims ''access'' [JNum double_100_002],
                   signature = ''c2ln''\<rparr>)
      else if t = JStr ''access-badexp'' then
        Inr (Some \<lparr>header = sample_header,
                   payload = sample_claims ''access''
                               [JObj [(''valueOf'', JNum 1), (''toString'', JNum 1)]],
                   signature = ''c2ln''\<rparr>)
      else if t = JStr ''empty-payload'' then
        Inr (Some \<lparr>header = sample_header, payload = JStr [], signature = ''c2ln''\<rparr>)
      else if t = JStr ''throws'' then Inl ''boom''
      else Inr None)"

definition sample_request :: "string \<Rightarrow> jsval" where
  "sample_request t = JObj [(''sessionToken'', JStr t)]"

text \<open>
  The conversion to a number on the objects the samples hold: an object with an own
  \<^verbatim>\<open>toString\<close> that is not a function cannot be converted, any other object converts to
  NaN through the string \<^verbatim>\<open>[object Object]\<close>. The samples convert nothing else.
\<close>

definition sample_to_number :: "jsval \<Rightarrow> string + js_number" where
  "sample_to_number v =
     (case v of
        JObj kvs \<Rightarrow>
          (if map_of kvs ''toString'' \<noteq> None then Inl ''Cannot convert object to primitive value''
           else Inr NaN)
      | _ \<Rightarrow> Inr NaN)"

text \<open>
  A \<^verbatim>\<open>res.cookie\<close> that refuses an expiry date past the last date of JavaScript,
  8640000000000000 ms.
\<close>

definition sample_res_cookie :: "int \<Rightarrow> cookie \<Rightarrow> string option" where
  "sample_res_cookie now c =
     (if 8640000000000000 < now + maxAge c then Some ''option expires is invalid'' else None)"

definition sample_page :: "unit page" where
  "sample_page =
     \<lparr>pathname = ''/'', search = [(''session_token'', ''alice-160'')], hash = [],
      loading = False, statusText = ''Initializing...'', statusError = False, debugInfo = None,
      unauthenticatedView = False, authenticatedView = False, userPanel = (), timers = []\<rparr>"

definition sample_network_error :: js_error where
  "sample_network_error =
     \<lparr>err_message = ''Failed to fetch'', err_name = ''TypeError'',
      err_stack = ''TypeError: Failed to fetch at handleSessionTokenExchange (app.js:143)''\<rparr>"

definition sample_new_Error :: "jsval \<Rightarrow> js_error" where
  "sample_new_Error v =
     \<lparr>err_message = (case v of JStr s \<Rightarrow> s | _ \<Rightarrow> ''[object Object]''), err_name = ''Error'',
      err_stack = ''Error at handleSessionTokenExchange (app.js:175)''\<rparr>"

definition sample_prop_TypeError :: "jsval \<Rightarrow> string \<Rightarrow> js_error" where
  "sample_prop_TypeError v k =
     \<lparr>err_message = ''Cannot read properties of undefined (reading '' @ k @ '')'',
      err_name = ''TypeError'', err_stack = ''TypeError at app.js''\<rparr>"

definition sample_show_user :: "account \<Rightarrow> unit \<Rightarrow> unit \<times> js_error option" where
  "sample_show_user acct u = (u, None)"

text \<open>The HTTP response the browser sees for a server response with an error body.\<close>

definition sample_http_error :: "string \<Rightarrow> http_response" where
  "sample_http_error e = \<lparr>ok = False, json = Inr (JObj [(''error'', JStr e)])\<rparr>"

section \<open>Facts about the model\<close>

lemmas sample_defs = sample_decode_def sample_request_def sample_claims_def sample_header_def
  sample_to_number_def sample_res_cookie_def session_cookie_def success_body_def
  token_expired_def js_lt_def js_or_def double_100_002_def
  div1000_def bit_length.simps round_half_even_def Let_def

lemmas page_defs = showLoading_def updateStatus_def showDebugInfo_def showAuthenticatedView_def
  showUnauthenticatedView_def exchange_pending_def exchange_failed_def

lemma status_reject: "status (reject c e) = c"
  by (simp add: reject_def res0_def)

lemma cookies_reject: "cookies (reject c e) = []"
  by (simp add: reject_def res0_def)

lemma body_reject: "body (reject c e) = ErrorBody e None"
  by (simp add: reject_def res0_def)

lemma status_failed: "status (failed env m) = 401"
  by (simp add: failed_def res0_def)

lemma cookies_failed: "cookies (failed env m) = []"
  by (simp add: failed_def res0_def)

text \<open>The handler on a token that decodes to a truthy payload: expiry, then kind, then the cookie.\<close>

lemma initialize_session_decoded:
  assumes "truthy (get_prop b ''sessionToken'')"
    and "J (get_prop b ''sessionToken'') = Inr (Some d)"
    and "truthy (payload d)"
  shows "initialize_session J N C env now b =
     (case token_expired N now (payload d) of
        Inl m \<Rightarrow> failed env m
      | Inr True \<Rightarrow> reject 401 ''Session token expired''
      | Inr False \<Rightarrow>
          if get_prop (payload d) ''type'' \<noteq> JStr ''session_init'' then
            reject 401 ''Invalid token type''
          else
            case C now (session_cookie env now (payload d)) of
              Some m \<Rightarrow> failed env m
            | None \<Rightarrow>
                res0\<lparr>cookies := [session_cookie env now (payload d)],
                     body := success_body (payload d)\<rparr>)"
  using assms by (simp add: initialize_session_def Let_def)

text \<open>Status 200 is the success path and nothing else.\<close>

lemma success_decoded:
  assumes "status (initialize_session J N C env now b) = 200"
  shows "\<exists>d. truthy (get_prop b ''sessionToken'') \<and> J (get_prop b ''sessionToken'') = Inr (Some d)
     \<and> truthy (payload d) \<and> token_expired N now (payload d) = Inr False
     \<and> get_prop (payload d) ''type'' = JStr ''session_init''
     \<and> C now (session_cookie env now (payload d)) = None"
  using assms
  by (auto simp: initialize_session_def Let_def res0_def reject_def failed_def
      split: if_splits sum.splits option.splits bool.splits)

lemma decoded_success:
  assumes "truthy (get_prop b ''sessionToken'')"
    and "J (get_prop b ''sessionToken'') = Inr (Some d)"
    and "truthy (payload d)"
    and "token_expired N now (payload d) = Inr False"
    and "get_prop (payload d) ''type'' = JStr ''session_init''"
    and "C now (session_cookie env now (payload d)) = None"
  shows "initialize_session J N C env now b =
     res0\<lparr>cookies := [session_cookie env now (payload d)], body := success_body (payload d)\<rparr>"
  using assms by (simp add: initialize_session_decoded)

text \<open>Whether the expiry comparison throws does not depend on the clock.\<close>

lemma token_expired_throws_always:
  assumes "token_expired N now p = Inl m"
  shows "token_expired N now' p = Inl m"
  using assms
  by (auto simp: token_expired_def js_lt_def
      split: if_splits jsval.splits sum.splits js_number.splits)


text \<open>A token presented no later than its \<open>exp\<close> does not trip the expiry check.\<close>

lemma unexpired_not_token_expired:
  assumes "get_prop p ''exp'' = JNum e" and "div1000 now \<le> e"
  shows "token_expired N now p = Inr False"
  using assms by (simp add: token_expired_def js_lt_def)

lemma search_exchange_pending: "search (exchange_pending p) = search p"
  by (simp add: page_defs)

lemma search_exchange_failed: "search (exchange_failed now e p) = search p"
  by (simp add: page_defs Let_def)

lemma search_exchange_settled_response:
  "search (exchange_settled E T U now (Resolves r) p) = []"
proof -
  have h: "\<And>a q. search q = [] \<Longrightarrow>
      search (case handleAuthenticatedUser U a q of
                (Some e, p2) \<Rightarrow> exchange_failed now e p2
              | (None, p2) \<Rightarrow>
                  showLoading False (updateStatus ''Authenticated via native app'' False p2)) = []"
    by (simp add: handleAuthenticatedUser_def page_defs Let_def split: prod.splits option.splits)
  show ?thesis
    by (simp add: exchange_settled_def Let_def search_exchange_failed h split: sum.splits)
qed

lemma debug_exchange_failed:
  "statusText (exchange_failed now e p) = ''Session initialization failed, redirecting to login...'' \<and>
   statusError (exchange_failed now e p) \<and>
   debugInfo (exchange_failed now e p) =
     Some \<lparr>dbg_message = (if err_message e = [] then ''Unknown error'' else err_message e),
           dbg_name = err_name e, dbg_stack = err_stack e, dbg_timestamp = now\<rparr>"
  by (simp add: page_defs Let_def)





section \<open>Single-use redemption (C1)\<close>

text \<open>
  C1, as stated, fails: the handler keeps no record of redeemed tokens. Two calls in a row
  with the same token (same \<open>jti\<close>), one second apart and both before the token's expiry,
  both answer 200.
\<close>

theorem replay_accepted_counterexample:
  "map status (serve sample_decode sample_to_number sample_res_cookie (Some ''production'')
     [(100000, sample_request ''alice-160''), (101000, sample_request ''alice-160'')]) = [200, 200]"
  by (simp add: serve_def initialize_session_def sample_defs res0_def)

text \<open>
  C1, amended: redemption is repeatable. In every sequence of calls, if a call presenting a
  token succeeds, then every call with the same request body succeeds as well, unless the
  handler's expiry check fires at that call's clock reading (or \<^verbatim>\<open>res.cookie\<close> throws
  at it).
\<close>

theorem redemption_repeatable:
  assumes "i < length calls" and "j < length calls"
    and "snd (calls ! j) = snd (calls ! i)"
    and "status (serve J N C env calls ! i) = 200"
    and "J (get_prop (snd (calls ! j)) ''sessionToken'') = Inr (Some d)"
    and "token_expired N (fst (calls ! j)) (payload d) \<noteq> Inr True"
    and "C (fst (calls ! j)) (session_cookie env (fst (calls ! j)) (payload d)) = None"
  shows "status (serve J N C env calls ! j) = 200"
proof -
  have i: "serve J N C env calls ! i =
      initialize_session J N C env (fst (calls ! i)) (snd (calls ! i))"
    using assms(1) by (simp add: serve_def case_prod_unfold)
  have j: "serve J N C env calls ! j =
      initialize_session J N C env (fst (calls ! j)) (snd (calls ! j))"
    using assms(2) by (simp add: serve_def case_prod_unfold)
  from assms(4) i obtain d' where d':
    "truthy (get_prop (snd (calls ! i)) ''sessionToken'')"
    "J (get_prop (snd (calls ! i)) ''sessionToken'') = Inr (Some d')"
    "truthy (payload d')"
    "token_expired N (fst (calls ! i)) (payload d') = Inr False"
    "get_prop (payload d') ''type'' = JStr ''session_init''"
    using success_decoded[of J N C env "fst (calls ! i)" "snd (calls ! i)"] by auto
  from d'(2) assms(3,5) have dd: "d' = d" by simp
  have "token_expired N (fst (calls ! j)) (payload d) = Inr False"
  proof (cases "token_expired N (fst (calls ! j)) (payload d)")
    case (Inl m)
    from token_expired_throws_always[OF this, of "fst (calls ! i)"] d'(4) dd
    show ?thesis by simp
  next
    case (Inr fired)
    with assms(6) show ?thesis by simp
  qed
  with d' dd assms(3,5,7) have "initialize_session J N C env (fst (calls ! j)) (snd (calls ! j)) =
      res0\<lparr>cookies := [session_cookie env (fst (calls ! j)) (payload d)],
           body := success_body (payload d)\<rparr>"
    by (intro decoded_success) simp_all
  then show ?thesis
    unfolding j by (simp add: res0_def)
qed

theorem redemption_repeatable_witness:
  "status (serve sample_decode sample_to_number sample_res_cookie None
     [(100000, sample_request ''alice-160''), (159000, sample_request ''alice-160'')] ! 0) = 200 \<and>
   status (serve sample_decode sample_to_number sample_res_cookie None
     [(100000, sample_request ''alice-160''), (159000, sample_request ''alice-160'')] ! 1) = 200"
  using redemption_repeatable[of 0
      "[(100000, sample_request ''alice-160''), (159000, sample_request ''alice-160'')]" 1
      sample_decode sample_to_number sample_res_cookie None
      "\<lparr>header = sample_header, payload = sample_claims ''session_init'' [JNum 160],
        signature = ''c2ln''\<rparr>"]
  by (simp add: serve_def initialize_session_def sample_defs res0_def)

section \<open>Token scrubbing (C2)\<close>

text \<open>
  C2, as stated, fails. The function awaits the exchange call before it touches the
  location: while the call is pending the token is still in the URL, and when the call
  rejects (a network error) control goes to the \<^verbatim>\<open>catch\<close> block and the token stays
  in the URL.
\<close>

theorem token_left_in_url_counterexample:
  "checkForSessionTokenInUrl sample_page = Some ''alice-160'' \<and>
   checkForSessionTokenInUrl (exchange_pending sample_page) = Some ''alice-160'' \<and>
   checkForSessionTokenInUrl
     (handleSessionTokenExchange sample_new_Error sample_prop_TypeError sample_show_user 100000
        (Rejects sample_network_error) sample_page) = Some ''alice-160''"
  by (simp add: checkForSessionTokenInUrl_def handleSessionTokenExchange_def exchange_settled_def
      page_defs sample_page_def Let_def)

text \<open>
  C2, amended: the location is left as it is while the exchange call is pending, and once
  the call has returned an HTTP response the whole query string, the token with it, is
  removed, whether the response reports success or failure and whatever its body is.
\<close>

theorem token_scrubbed_on_response:
  "search (exchange_pending p) = search p \<and>
   search (handleSessionTokenExchange E T U now (Resolves r) p) = [] \<and>
   checkForSessionTokenInUrl (handleSessionTokenExchange E T U now (Resolves r) p) = None"
  by (simp add: handleSessionTokenExchange_def search_exchange_settled_response
      search_exchange_pending checkForSessionTokenInUrl_def)

section \<open>Signature verification (C3)\<close>

text \<open>
  C3, as stated, fails: the handler calls \<^verbatim>\<open>jwt.decode\<close>, which parses and does not
  verify. A token with algorithm \<open>none\<close> and an empty signature segment is answered with
  200 and the session cookie.
\<close>

theorem unsigned_token_accepted_counterexample:
  "sample_decode (JStr ''alice-160-unsigned'') =
     Inr (Some \<lparr>header = JObj [(''alg'', JStr ''none''), (''typ'', JStr ''JWT'')],
                payload = sample_claims ''session_init'' [JNum 160], signature = []\<rparr>) \<and>
   status (initialize_session sample_decode sample_to_number sample_res_cookie
     (Some ''production'') 100000 (sample_request ''alice-160-unsigned'')) = 200 \<and>
   map cookie_name (cookies (initialize_session sample_decode sample_to_number sample_res_cookie
     (Some ''production'') 100000 (sample_request ''alice-160-unsigned''))) = [''session'']"
  by (simp add: initialize_session_def sample_defs res0_def)

text \<open>
  C3, amended: the decode step parses the token and its result is used unverified. Two
  tokens that decode to the same payload get the same response, whatever their header and
  signature segments are.
\<close>

theorem signature_never_checked:
  assumes "truthy (get_prop b ''sessionToken'')" and "truthy (get_prop b' ''sessionToken'')"
    and "J (get_prop b ''sessionToken'') = Inr (Some d)"
    and "J (get_prop b' ''sessionToken'') = Inr (Some (d\<lparr>header := h, signature := s\<rparr>))"
  shows "initialize_session J N C env now b' = initialize_session J N C env now b"
  using assms by (simp add: initialize_session_def Let_def)

theorem signature_never_checked_witness:
  "initialize_session sample_decode sample_to_number sample_res_cookie None 100000
     (sample_request ''alice-160-unsigned'') =
   initialize_session sample_decode sample_to_number sample_res_cookie None 100000
     (sample_request ''alice-160'')"
  using signature_never_checked[where b = "sample_request ''alice-160''"
      and b' = "sample_request ''alice-160-unsigned''" and J = sample_decode
      and d = "\<lparr>header = sample_header, payload = sample_claims ''session_init'' [JNum 160],
                signature = ''c2ln''\<rparr>"
      and h = sample_header and s = "[]" and N = sample_to_number and C = sample_res_cookie
      and env = None and now = 100000]
  by (simp add: sample_decode_def sample_request_def)

section \<open>Order of the checks (C4)\<close>

text \<open>
  C4, as stated, fails: the handler checks expiry before kind and has no replay check.
  A token of kind \<open>access\<close> whose \<open>exp\<close> is 160 s, presented at 200 s, is answered with
  the expiry error, not the kind error.
\<close>

theorem expired_wrong_kind_counterexample:
  "get_prop (sample_claims ''access'' [JNum 160]) ''type'' \<noteq> JStr ''session_init'' \<and>
   get_prop (sample_claims ''access'' [JNum 160]) ''exp'' = JNum 160 \<and>
   div1000 200000 = 200 \<and>
   initialize_session sample_decode sample_to_number sample_res_cookie None 200000
     (sample_request ''access-160'') = reject 401 ''Session token expired''"
  by (simp add: initialize_session_def sample_defs)

text \<open>
  C4, amended: for a token that is present, the handler validates in the fixed order
  decode, expiry, kind, and stops at the first failure. A token that does not decode (or
  decodes to an empty payload) gets the format error, and one on which the decoder throws
  gets the answer of the \<^verbatim>\<open>catch\<close> block. A decoded token on which the expiry check
  fires gets the expiry error whatever its kind, and one on which the expiry comparison
  throws gets the answer of the \<^verbatim>\<open>catch\<close> block whatever its kind. A decoded token on
  which the expiry check passes and whose kind is wrong gets the kind error. A token that
  passes the three succeeds when \<^verbatim>\<open>res.cookie\<close> sets the cookie: no further check is
  made.
\<close>

theorem validation_order:
  assumes "truthy (get_prop b ''sessionToken'')"
  shows "(J (get_prop b ''sessionToken'') = Inr None \<longrightarrow>
            initialize_session J N C env now b = reject 401 ''Invalid session token format'') \<and>
         (\<forall>m. J (get_prop b ''sessionToken'') = Inl m \<longrightarrow>
            initialize_session J N C env now b = failed env m) \<and>
         (\<forall>d. J (get_prop b ''sessionToken'') = Inr (Some d) \<and> \<not> truthy (payload d) \<longrightarrow>
            initialize_session J N C env now b = reject 401 ''Invalid session token format'') \<and>
         (\<forall>d. J (get_prop b ''sessionToken'') = Inr (Some d) \<and> truthy (payload d) \<and>
              token_expired N now (payload d) = Inr True \<longrightarrow>
            initialize_session J N C env now b = reject 401 ''Session token expired'') \<and>
         (\<forall>d m. J (get_prop b ''sessionToken'') = Inr (Some d) \<and> truthy (payload d) \<and>
              token_expired N now (payload d) = Inl m \<longrightarrow>
            initialize_session J N C env now b = failed env m) \<and>
         (\<forall>d. J (get_prop b ''sessionToken'') = Inr (Some d) \<and> truthy (payload d) \<and>
              token_expired N now (payload d) = Inr False \<and>
              get_prop (payload d) ''type'' \<noteq> JStr ''session_init'' \<longrightarrow>
            initialize_session J N C env now b = reject 401 ''Invalid token type'') \<and>
         (\<forall>d. J (get_prop b ''sessionToken'') = Inr (Some d) \<and> truthy (payload d) \<and>
              token_expired N now (payload d) = Inr False \<and>
              get_prop (payload d) ''type'' = JStr ''session_init'' \<and>
              C now (session_cookie env now (payload d)) = None \<longrightarrow>
            status (initialize_session J N C env now b) = 200)"
  using assms by (simp add: initialize_session_def Let_def res0_def)

theorem validation_order_witness:
  "initialize_session sample_decode sample_to_number sample_res_cookie None 200000
     (sample_request ''garbage'') = reject 401 ''Invalid session token format'' \<and>
   initialize_session sample_decode sample_to_number sample_res_cookie None 200000
     (sample_request ''throws'') = failed None ''boom'' \<and>
   initialize_session sample_decode sample_to_number sample_res_cookie None 200000
     (sample_request ''empty-payload'') = reject 401 ''Invalid session token format'' \<and>
   initialize_session sample_decode sample_to_number sample_res_cookie None 200000
     (sample_request ''access-160'') = reject 401 ''Session token expired'' \<and>
   initialize_session sample_decode sample_to_number sample_res_cookie None 100003
     (sample_request ''access-100.002'') = reject 401 ''Session token expired'' \<and>
   initialize_session sample_decode sample_to_number sample_res_cookie None 200000
     (sample_request ''access-badexp'') = failed None ''Cannot convert object to primitive value'' \<and>
   initialize_session sample_decode sample_to_number sample_res_cookie None 100002
     (sample_request ''access-100.002'') = reject 401 ''Invalid token type'' \<and>
   status (initialize_session sample_decode sample_to_number sample_res_cookie None 100000
     (sample_request ''alice-160'')) = 200"
  using
    validation_order[of "sample_request ''garbage''" sample_decode sample_to_number
      sample_res_cookie None 200000]
    validation_order[of "sample_request ''throws''" sample_decode sample_to_number
      sample_res_cookie None 200000]
    validation_order[of "sample_request ''empty-payload''" sample_decode sample_to_number
      sample_res_cookie None 200000]
    validation_order[of "sample_request ''access-160''" sample_decode sample_to_number
      sample_res_cookie None 200000]
    validation_order[of "sample_request ''access-100.002''" sample_decode sample_to_number
      sample_res_cookie None 100003]
    validation_order[of "sample_request ''access-badexp''" sample_decode sample_to_number
      sample_res_cookie None 200000]
    validation_order[of "sample_request ''access-100.002''" sample_decode sample_to_number
      sample_res_cookie None 100002]
    validation_order[of "sample_request ''alice-160''" sample_decode sample_to_number
      sample_res_cookie None 100000]
  by (simp add: sample_defs)

section \<open>Expiry (C5)\<close>




section \<open>Kind (C6)\<close>

text \<open>
  C6: every token that decodes, on which the expiry check passes (in particular every
  token with a numeric \<open>exp\<close> not less than the double \<^verbatim>\<open>Date.now() / 1000\<close>) and whose
  \<open>type\<close> claim is not the string \<open>session_init\<close>, is answered with 401 and the kind
  error, and no cookie is set.
\<close>

theorem wrong_kind_rejected:
  assumes "truthy (get_prop b ''sessionToken'')"
    and "J (get_prop b ''sessionToken'') = Inr (Some d)"
    and "truthy (payload d)"
    and "token_expired N now (payload d) = Inr False"
    and "get_prop (payload d) ''type'' \<noteq> JStr ''session_init''"
  shows "initialize_session J N C env now b = reject 401 ''Invalid token type'' \<and>
         status (initialize_session J N C env now b) = 401 \<and>
         cookies (initialize_session J N C env now b) = []"
  using assms by (simp add: initialize_session_decoded status_reject cookies_reject)

theorem wrong_kind_rejected_witness:
  "get_prop (sample_claims ''access'' [JNum 160]) ''exp'' = JNum 160 \<and>
   div1000 100000 < 160 \<and>
   initialize_session sample_decode sample_to_number sample_res_cookie None 100000
     (sample_request ''access-160'') = reject 401 ''Invalid token type'' \<and>
   cookies (initialize_session sample_decode sample_to_number sample_res_cookie None 100000
     (sample_request ''access-160'')) = []"
proof -
  have e: "get_prop (sample_claims ''access'' [JNum 160]) ''exp'' = JNum 160"
    by (simp add: sample_claims_def)
  have t: "div1000 100000 < 160"
    by (simp add: div1000_def bit_length.simps round_half_even_def Let_def)
  have u: "token_expired sample_to_number 100000 (sample_claims ''access'' [JNum 160]) = Inr False"
    using unexpired_not_token_expired[OF e] t by simp
  show ?thesis
    using e t u
      wrong_kind_rejected[where b = "sample_request ''access-160''" and J = sample_decode
        and d = "\<lparr>header = sample_header, payload = sample_claims ''access'' [JNum 160],
                  signature = ''c2ln''\<rparr>"
        and N = sample_to_number and C = sample_res_cookie and now = 100000 and env = None]
    by (simp add: sample_decode_def sample_request_def sample_claims_def cookies_reject)
qed

section \<open>Failing paths have no effect (C7)\<close>

text \<open>
  C7, as stated, fails in its last part: a successful call does not record the token as
  consumed. The same token, presented twice, is given the session cookie twice.
\<close>

theorem credential_issued_twice_counterexample:
  "map (\<lambda>r. (status r, map cookie_name (cookies r)))
     (serve sample_decode sample_to_number sample_res_cookie (Some ''production'')
        [(100000, sample_request ''alice-noexp''), (100000, sample_request ''alice-noexp'')]) =
   [(200, [''session'']), (200, [''session''])]"
  by (simp add: serve_def initialize_session_def sample_defs res0_def)

text \<open>
  C7, amended: the route answers 200, 400, 401 or 500. On every failing path (a body the
  parsers refuse, a missing token, a token that does not decode, an expired token, a wrong
  kind, an exception in the decoder, in the expiry comparison or in \<^verbatim>\<open>res.cookie\<close>) the
  answer carries an error body and no cookie is issued; only a successful call issues the
  session cookie, exactly one. There is no replay store and no replayed path: a call
  records nothing, and in every run the answer to a call is what the handler answers to
  that call alone.
\<close>

theorem failure_sets_no_cookie:
  "status (endpoint J N C env now req) \<in> {200, 400, 401, 500} \<and>
   (status (endpoint J N C env now req) \<noteq> 200 \<longrightarrow>
      cookies (endpoint J N C env now req) = [] \<and>
      (\<exists>e x. body (endpoint J N C env now req) = ErrorBody e x \<or>
             body (endpoint J N C env now req) = InternalErrorBody e x)) \<and>
   (status (endpoint J N C env now req) = 200 \<longrightarrow>
      (\<exists>c. cookies (endpoint J N C env now req) = [c])) \<and>
   (\<forall>i < length calls.
      serve J N C env calls ! i =
        initialize_session J N C env (fst (calls ! i)) (snd (calls ! i)))"
proof -
  have "status (endpoint J N C env now req) \<in> {200, 400, 401, 500} \<and>
   (status (endpoint J N C env now req) \<noteq> 200 \<longrightarrow>
      cookies (endpoint J N C env now req) = [] \<and>
      (\<exists>e x. body (endpoint J N C env now req) = ErrorBody e x \<or>
             body (endpoint J N C env now req) = InternalErrorBody e x)) \<and>
   (status (endpoint J N C env now req) = 200 \<longrightarrow>
      (\<exists>c. cookies (endpoint J N C env now req) = [c]))"
    by (simp add: endpoint_def error_middleware_def initialize_session_def Let_def res0_def
        reject_def failed_def split: request.splits sum.splits option.splits bool.splits)
  moreover have "\<forall>i < length calls.
      serve J N C env calls ! i =
        initialize_session J N C env (fst (calls ! i)) (snd (calls ! i))"
    by (simp add: serve_def case_prod_unfold)
  ultimately show ?thesis by blast
qed

theorem failure_sets_no_cookie_witness:
  "status (endpoint sample_decode sample_to_number sample_res_cookie None 100000
      (Body (sample_request ''throws''))) = 401 \<and>
   cookies (endpoint sample_decode sample_to_number sample_res_cookie None 100000
      (Body (sample_request ''throws''))) = [] \<and>
   status (endpoint sample_decode sample_to_number sample_res_cookie None 100000
      (Body (sample_request ''access-badexp''))) = 401 \<and>
   cookies (endpoint sample_decode sample_to_number sample_res_cookie None 100000
      (Body (sample_request ''access-badexp''))) = [] \<and>
   status (endpoint sample_decode sample_to_number sample_res_cookie None 8640000000000000
      (Body (sample_request ''alice-noexp''))) = 401 \<and>
   cookies (endpoint sample_decode sample_to_number sample_res_cookie None 8640000000000000
      (Body (sample_request ''alice-noexp''))) = [] \<and>
   status (endpoint sample_decode sample_to_number sample_res_cookie None 100000
      (BodyError ''Unexpected token'')) = 500 \<and>
   cookies (endpoint sample_decode sample_to_number sample_res_cookie None 100000
      (BodyError ''Unexpected token'')) = [] \<and>
   status (endpoint sample_decode sample_to_number sample_res_cookie None 100000
      (Body (sample_request ''alice-160''))) = 200 \<and>
   length (cookies (endpoint sample_decode sample_to_number sample_res_cookie None 100000
      (Body (sample_request ''alice-160'')))) = 1 \<and>
   serve sample_decode sample_to_number sample_res_cookie None
      [(100000, sample_request ''alice-160''), (101000, sample_request ''alice-160'')] ! 1 =
     initialize_session sample_decode sample_to_number sample_res_cookie None 101000
       (sample_request ''alice-160'')"
proof -
  have s:
    "status (endpoint sample_decode sample_to_number sample_res_cookie None 100000
      (Body (sample_request ''throws''))) = 401"
    "status (endpoint sample_decode sample_to_number sample_res_cookie None 100000
      (Body (sample_request ''access-badexp''))) = 401"
    "status (endpoint sample_decode sample_to_number sample_res_cookie None 8640000000000000
      (Body (sample_request ''alice-noexp''))) = 401"
    "status (endpoint sample_decode sample_to_number sample_res_cookie None 100000
      (BodyError ''Unexpected token'')) = 500"
    "status (endpoint sample_decode sample_to_number sample_res_cookie None 100000
      (Body (sample_request ''alice-160''))) = 200"
    by (simp_all add: endpoint_def error_middleware_def initialize_session_def sample_defs
        res0_def failed_def)
  have run: "serve sample_decode sample_to_number sample_res_cookie None
      [(100000, sample_request ''alice-160''), (101000, sample_request ''alice-160'')] ! 1 =
     initialize_session sample_decode sample_to_number sample_res_cookie None 101000
       (sample_request ''alice-160'')"
    using failure_sets_no_cookie[of sample_decode sample_to_number sample_res_cookie None 100000
        "Body (sample_request ''alice-160'')"
        "[(100000, sample_request ''alice-160''), (101000, sample_request ''alice-160'')]",
        THEN conjunct2, THEN conjunct2, THEN conjunct2, rule_format, of 1]
    by simp
  show ?thesis
    using s run
      failure_sets_no_cookie[of sample_decode sample_to_number sample_res_cookie None 100000
        "Body (sample_request ''throws'')" "[]"]
      failure_sets_no_cookie[of sample_decode sample_to_number sample_res_cookie None 100000
        "Body (sample_request ''access-badexp'')" "[]"]
      failure_sets_no_cookie[of sample_decode sample_to_number sample_res_cookie None
        8640000000000000 "Body (sample_request ''alice-noexp'')" "[]"]
      failure_sets_no_cookie[of sample_decode sample_to_number sample_res_cookie None 100000
        "BodyError ''Unexpected token''" "[]"]
      failure_sets_no_cookie[of sample_decode sample_to_number sample_res_cookie None 100000
        "Body (sample_request ''alice-160'')" "[]"]
    by auto
qed

section \<open>Error output (C8)\<close>

text \<open>
  C8, as stated, fails. The error output depends on the token: at the same clock reading and
  in the same environment an expired token and an undecodable one get different error
  bodies. And the page does show error internals: after a failed exchange its debug panel
  holds the message, the name and the stack of the error.
\<close>

theorem error_output_varies_counterexample:
  "initialize_session sample_decode sample_to_number sample_res_cookie (Some ''production'')
     200000 (sample_request ''alice-160'') = reject 401 ''Session token expired'' \<and>
   initialize_session sample_decode sample_to_number sample_res_cookie (Some ''production'')
     200000 (sample_request ''garbage'') = reject 401 ''Invalid session token format'' \<and>
   reject 401 ''Session token expired'' \<noteq> reject 401 ''Invalid session token format'' \<and>
   debugInfo (handleSessionTokenExchange sample_new_Error sample_prop_TypeError sample_show_user
       200000 (Resolves (sample_http_error ''Session token expired'')) sample_page) =
     Some \<lparr>dbg_message = ''Session token expired'', dbg_name = ''Error'',
           dbg_stack = ''Error at handleSessionTokenExchange (app.js:175)'',
           dbg_timestamp = 200000\<rparr>"
  by (simp add: initialize_session_def sample_defs reject_def res0_def
      handleSessionTokenExchange_def exchange_settled_def page_defs sample_page_def
      sample_http_error_def sample_new_Error_def nullish_def)

text \<open>
  C8, amended. On the server: outside development mode every failing answer of the route
  is one of six fixed responses, chosen by the step that failed, so it holds no token, no
  claim and no exception text; in development mode the answer still carries one of the six
  fixed error strings, and only the two exception answers (the \<^verbatim>\<open>catch\<close> block and the
  error middleware) add the exception's message. On the page: whenever the exchange call
  is rejected or returns a response that is not ok, the status line shows the fixed text
  and the debug panel shows the message, name and stack of an error; that error is the
  one the fetch rejected with, or, for a response whose JSON body is an object, an
  \<^verbatim>\<open>Error\<close> made from the body's \<open>error\<close> field (the server's error string), or from
  the fixed text when the field is empty.
\<close>

theorem failure_output_fixed_strings:
  "(status (endpoint J N C env now req) \<noteq> 200 \<longrightarrow>
      (env \<noteq> Some ''development'' \<longrightarrow>
         endpoint J N C env now req \<in>
           {reject 400 ''Session token required'',
            reject 401 ''Invalid session token format'',
            reject 401 ''Session token expired'',
            reject 401 ''Invalid token type'',
            reject 401 ''Session initialization failed'',
            \<lparr>status = 500, cookies = [],
             body = InternalErrorBody ''Internal server error'' None\<rparr>}) \<and>
      (\<exists>e x. (body (endpoint J N C env now req) = ErrorBody e x \<or>
              body (endpoint J N C env now req) = InternalErrorBody e x) \<and>
         e \<in> {''Session token required'', ''Invalid session token format'',
               ''Session token expired'', ''Invalid token type'',
               ''Session initialization failed'', ''Internal server error''} \<and>
         (x \<noteq> None \<longrightarrow>
            env = Some ''development'' \<and>
            e \<in> {''Session initialization failed'', ''Internal server error''}))) \<and>
   statusText (handleSessionTokenExchange E T U now' (Rejects err) p) =
     ''Session initialization failed, redirecting to login...'' \<and>
   debugInfo (handleSessionTokenExchange E T U now' (Rejects err) p) =
     Some \<lparr>dbg_message = (if err_message err = [] then ''Unknown error'' else err_message err),
           dbg_name = err_name err, dbg_stack = err_stack err, dbg_timestamp = now'\<rparr> \<and>
   (\<forall>r. \<not> ok r \<longrightarrow>
      statusText (handleSessionTokenExchange E T U now' (Resolves r) p) =
        ''Session initialization failed, redirecting to login...'' \<and>
      (\<exists>err'::js_error. debugInfo (handleSessionTokenExchange E T U now' (Resolves r) p) =
         Some \<lparr>dbg_message = (if err_message err' = [] then ''Unknown error'' else err_message err'),
               dbg_name = err_name err', dbg_stack = err_stack err', dbg_timestamp = now'\<rparr>)) \<and>
   (\<forall>r kvs. \<not> ok r \<and> json r = Inr (JObj kvs) \<longrightarrow>
      debugInfo (handleSessionTokenExchange E T U now' (Resolves r) p) =
        debugInfo (showDebugInfo now'
          (E (js_or (get_prop (JObj kvs) ''error'') (JStr ''Session initialization failed''))) p))"
proof -
  have server: "status (endpoint J N C env now req) \<noteq> 200 \<longrightarrow>
      (env \<noteq> Some ''development'' \<longrightarrow>
         endpoint J N C env now req \<in>
           {reject 400 ''Session token required'',
            reject 401 ''Invalid session token format'',
            reject 401 ''Session token expired'',
            reject 401 ''Invalid token type'',
            reject 401 ''Session initialization failed'',
            \<lparr>status = 500, cookies = [],
             body = InternalErrorBody ''Internal server error'' None\<rparr>}) \<and>
      (\<exists>e x. (body (endpoint J N C env now req) = ErrorBody e x \<or>
              body (endpoint J N C env now req) = InternalErrorBody e x) \<and>
         e \<in> {''Session token required'', ''Invalid session token format'',
               ''Session token expired'', ''Invalid token type'',
               ''Session initialization failed'', ''Internal server error''} \<and>
         (x \<noteq> None \<longrightarrow>
            env = Some ''development'' \<and>
            e \<in> {''Session initialization failed'', ''Internal server error''}))"
    by (simp add: endpoint_def error_middleware_def initialize_session_def Let_def res0_def
        reject_def failed_def split: request.splits sum.splits option.splits bool.splits)
  have rej: "handleSessionTokenExchange E T U now' (Rejects err) p =
      exchange_failed now' err (exchange_pending p)"
    by (simp add: handleSessionTokenExchange_def exchange_settled_def)
  have res: "\<exists>err'. handleSessionTokenExchange E T U now' (Resolves r) p =
      exchange_failed now' err' ((exchange_pending p)\<lparr>search := []\<rparr>)" if "\<not> ok r" for r
    using that
    by (auto simp: handleSessionTokenExchange_def exchange_settled_def Let_def split: sum.splits)
  have obj: "handleSessionTokenExchange E T U now' (Resolves r) p =
      exchange_failed now'
        (E (js_or (get_prop (JObj kvs) ''error'') (JStr ''Session initialization failed'')))
        ((exchange_pending p)\<lparr>search := []\<rparr>)" if "\<not> ok r" "json r = Inr (JObj kvs)" for r kvs
    using that
    by (simp add: handleSessionTokenExchange_def exchange_settled_def Let_def nullish_def)
  have a: "statusText (handleSessionTokenExchange E T U now' (Rejects err) p) =
      ''Session initialization failed, redirecting to login...'' \<and>
    debugInfo (handleSessionTokenExchange E T U now' (Rejects err) p) =
      Some \<lparr>dbg_message = (if err_message err = [] then ''Unknown error'' else err_message err),
            dbg_name = err_name err, dbg_stack = err_stack err, dbg_timestamp = now'\<rparr>"
    unfolding rej using debug_exchange_failed by blast
  have b: "\<forall>r. \<not> ok r \<longrightarrow>
      statusText (handleSessionTokenExchange E T U now' (Resolves r) p) =
        ''Session initialization failed, redirecting to login...'' \<and>
      (\<exists>err'::js_error. debugInfo (handleSessionTokenExchange E T U now' (Resolves r) p) =
         Some \<lparr>dbg_message = (if err_message err' = [] then ''Unknown error'' else err_message err'),
               dbg_name = err_name err', dbg_stack = err_stack err', dbg_timestamp = now'\<rparr>)"
  proof (intro allI impI)
    fix r :: http_response
    assume "\<not> ok r"
    from res[OF this] obtain err' where eq:
      "handleSessionTokenExchange E T U now' (Resolves r) p =
        exchange_failed now' err' ((exchange_pending p)\<lparr>search := []\<rparr>)" ..
    have st: "statusText (handleSessionTokenExchange E T U now' (Resolves r) p) =
        ''Session initialization failed, redirecting to login...''"
      by (simp add: eq debug_exchange_failed)
    have dbg: "debugInfo (handleSessionTokenExchange E T U now' (Resolves r) p) =
         Some \<lparr>dbg_message = (if err_message err' = [] then ''Unknown error'' else err_message err'),
               dbg_name = err_name err', dbg_stack = err_stack err', dbg_timestamp = now'\<rparr>"
      by (simp add: eq debug_exchange_failed)
    have ex: "\<exists>err'::js_error. debugInfo (handleSessionTokenExchange E T U now' (Resolves r) p) =
         Some \<lparr>dbg_message = (if err_message err' = [] then ''Unknown error'' else err_message err'),
               dbg_name = err_name err', dbg_stack = err_stack err', dbg_timestamp = now'\<rparr>"
      by (rule exI[of _ err']) (rule dbg)
    from st ex show "statusText (handleSessionTokenExchange E T U now' (Resolves r) p) =
        ''Session initialization failed, redirecting to login...'' \<and>
      (\<exists>err'::js_error. debugInfo (handleSessionTokenExchange E T U now' (Resolves r) p) =
         Some \<lparr>dbg_message = (if err_message err' = [] then ''Unknown error'' else err_message err'),
               dbg_name = err_name err', dbg_stack = err_stack err', dbg_timestamp = now'\<rparr>)"
      by (rule conjI)
  qed
  have c: "\<forall>r kvs. \<not> ok r \<and> json r = Inr (JObj kvs) \<longrightarrow>
      debugInfo (handleSessionTokenExchange E T U now' (Resolves r) p) =
        debugInfo (showDebugInfo now'
          (E (js_or (get_prop (JObj kvs) ''error'') (JStr ''Session initialization failed''))) p)"
    using obj by (simp add: debug_exchange_failed showDebugInfo_def)
  from server a b c show ?thesis by blast
qed

theorem failure_output_fixed_strings_witness:
  "endpoint sample_decode sample_to_number sample_res_cookie (Some ''production'') 100000
      (Body (sample_request ''throws'')) = reject 401 ''Session initialization failed'' \<and>
   endpoint sample_decode sample_to_number sample_res_cookie (Some ''production'') 100000
      (BodyError ''Unexpected token'') =
     \<lparr>status = 500, cookies = [], body = InternalErrorBody ''Internal server error'' None\<rparr> \<and>
   debugInfo (handleSessionTokenExchange sample_new_Error sample_prop_TypeError sample_show_user
       100000 (Resolves (sample_http_error ''Invalid token type'')) sample_page) =
     Some \<lparr>dbg_message = ''Invalid token type'', dbg_name = ''Error'',
           dbg_stack = ''Error at handleSessionTokenExchange (app.js:175)'',
           dbg_timestamp = 100000\<rparr>"
proof -
  note server =
    failure_output_fixed_strings[of sample_decode sample_to_number sample_res_cookie
      "Some ''production''" 100000 "Body (sample_request ''throws'')"
      sample_new_Error sample_prop_TypeError sample_show_user 100000 sample_network_error
      sample_page, THEN conjunct1]
  note parser =
    failure_output_fixed_strings[of sample_decode sample_to_number sample_res_cookie
      "Some ''production''" 100000 "BodyError ''Unexpected token''"
      sample_new_Error sample_prop_TypeError sample_show_user 100000 sample_network_error
      sample_page, THEN conjunct1]
  note page =
    failure_output_fixed_strings[of sample_decode sample_to_number sample_res_cookie
      "Some ''production''" 100000 "Body (sample_request ''throws'')"
      sample_new_Error sample_prop_TypeError sample_show_user 100000 sample_network_error
      sample_page, THEN conjunct2, THEN conjunct2, THEN conjunct2, THEN conjunct2,
      rule_format, of "sample_http_error ''Invalid token type''"
      "[(''error'', JStr ''Invalid token type'')]"]
  have a: "endpoint sample_decode sample_to_number sample_res_cookie (Some ''production'') 100000
      (Body (sample_request ''throws'')) = reject 401 ''Session initialization failed''"
    using server
    by (simp add: endpoint_def initialize_session_def sample_defs res0_def failed_def reject_def)
  have b: "endpoint sample_decode sample_to_number sample_res_cookie (Some ''production'') 100000
      (BodyError ''Unexpected token'') =
     \<lparr>status = 500, cookies = [], body = InternalErrorBody ''Internal server error'' None\<rparr>"
    using parser
    by (simp add: endpoint_def error_middleware_def res0_def)
  have c: "debugInfo (handleSessionTokenExchange sample_new_Error sample_prop_TypeError
       sample_show_user 100000 (Resolves (sample_http_error ''Invalid token type''))
       sample_page) =
     Some \<lparr>dbg_message = ''Invalid token type'', dbg_name = ''Error'',
           dbg_stack = ''Error at handleSessionTokenExchange (app.js:175)'',
           dbg_timestamp = 100000\<rparr>"
    using page
    by (simp add: sample_http_error_def showDebugInfo_def sample_new_Error_def js_or_def)
  from a b c show ?thesis by blast
qed

section \<open>The session cookie (C9)\<close>

text \<open>
  C9: every successful exchange (status 200) sets exactly one cookie, \<open>session\<close>, whose
  value is the session data; the cookie is HTTP-only, has \<open>sameSite\<close> \<open>lax\<close>, lives for
  24 hours and is \<open>secure\<close> exactly when \<open>NODE_ENV\<close> is \<open>production\<close>. The JSON body
  holds the success flag, a fixed message and the user's name, email and username, and
  nothing else.
\<close>

theorem session_cookie_delivery:
  assumes "status (initialize_session J N C env now b) = 200"
  shows "\<exists>d. J (get_prop b ''sessionToken'') = Inr (Some d) \<and>
     cookies (initialize_session J N C env now b) =
       [\<lparr>cookie_name = ''session'',
         cookie_value =
           \<lparr>userId = js_or (get_prop (payload d) ''sub'') (get_prop (payload d) ''oid''),
            email = js_or (get_prop (payload d) ''email'') (get_prop (payload d) ''preferred_username''),
            name = get_prop (payload d) ''name'',
            authenticatedAt = now\<rparr>,
         httpOnly = True,
         secure = (env = Some ''production''),
         sameSite = ''lax'',
         maxAge = 24 * (60 * 60 * 1000)\<rparr>] \<and>
     body (initialize_session J N C env now b) =
       SuccessBody True ''Session initialized successfully''
         \<lparr>user_name = get_prop (payload d) ''name'',
          user_email = js_or (get_prop (payload d) ''email'') (get_prop (payload d) ''preferred_username''),
          user_username =
            js_or (get_prop (payload d) ''preferred_username'') (get_prop (payload d) ''email'')\<rparr>"
proof -
  from success_decoded[OF assms] obtain d where d:
    "truthy (get_prop b ''sessionToken'')" "J (get_prop b ''sessionToken'') = Inr (Some d)"
    "truthy (payload d)" "token_expired N now (payload d) = Inr False"
    "get_prop (payload d) ''type'' = JStr ''session_init''"
    "C now (session_cookie env now (payload d)) = None"
    by blast
  then have "initialize_session J N C env now b =
      res0\<lparr>cookies := [session_cookie env now (payload d)], body := success_body (payload d)\<rparr>"
    by (rule decoded_success)
  then have "cookies (initialize_session J N C env now b) =
       [\<lparr>cookie_name = ''session'',
         cookie_value =
           \<lparr>userId = js_or (get_prop (payload d) ''sub'') (get_prop (payload d) ''oid''),
            email = js_or (get_prop (payload d) ''email'') (get_prop (payload d) ''preferred_username''),
            name = get_prop (payload d) ''name'',
            authenticatedAt = now\<rparr>,
         httpOnly = True,
         secure = (env = Some ''production''),
         sameSite = ''lax'',
         maxAge = 24 * (60 * 60 * 1000)\<rparr>] \<and>
     body (initialize_session J N C env now b) =
       SuccessBody True ''Session initialized successfully''
         \<lparr>user_name = get_prop (payload d) ''name'',
          user_email = js_or (get_prop (payload d) ''email'') (get_prop (payload d) ''preferred_username''),
          user_username =
            js_or (get_prop (payload d) ''preferred_username'') (get_prop (payload d) ''email'')\<rparr>"
    by (simp add: res0_def session_cookie_def success_body_def)
  with d(2) show ?thesis by blast
qed

theorem session_cookie_delivery_witness:
  "status (initialize_session sample_decode sample_to_number sample_res_cookie
      (Some ''production'') 100000 (sample_request ''alice-160'')) = 200 \<and>
   cookies (initialize_session sample_decode sample_to_number sample_res_cookie
      (Some ''production'') 100000 (sample_request ''alice-160'')) =
     [\<lparr>cookie_name = ''session'',
       cookie_value = \<lparr>userId = JStr ''u-1'', email = JStr ''alice@example.com'',
                       name = JStr ''Alice'', authenticatedAt = 100000\<rparr>,
       httpOnly = True, secure = True, sameSite = ''lax'', maxAge = 86400000\<rparr>]"
proof -
  have s: "status (initialize_session sample_decode sample_to_number sample_res_cookie
      (Some ''production'') 100000 (sample_request ''alice-160'')) = 200"
    by (simp add: initialize_session_def sample_defs res0_def)
  from session_cookie_delivery[OF s] s show ?thesis
    by (auto simp: sample_decode_def sample_request_def sample_claims_def js_or_def)
qed

section \<open>Tokens without an expiry claim (C10)\<close>

text \<open>
  C10: a token that decodes to a payload with no \<open>exp\<close> claim is never answered with the
  expiry error, at any clock reading. If its \<open>type\<close> is \<open>session_init\<close> the exchange
  succeeds and establishes the session, however long ago the token was issued: the answer
  is 200 with the success body for the token's user and the session cookie holding that
  user's session data (at every clock reading at which \<^verbatim>\<open>res.cookie\<close> sets the cookie).
\<close>

theorem missing_exp_never_expires:
  assumes "truthy (get_prop b ''sessionToken'')"
    and "J (get_prop b ''sessionToken'') = Inr (Some d)"
    and "get_prop (payload d) ''exp'' = JUndefined"
  shows "initialize_session J N C env now b \<noteq> reject 401 ''Session token expired'' \<and>
         (get_prop (payload d) ''type'' = JStr ''session_init'' \<and>
          C now (session_cookie env now (payload d)) = None \<longrightarrow>
            initialize_session J N C env now b =
              \<lparr>status = 200,
               cookies =
                 [\<lparr>cookie_name = ''session'',
                   cookie_value =
                     \<lparr>userId = js_or (get_prop (payload d) ''sub'') (get_prop (payload d) ''oid''),
                      email = js_or (get_prop (payload d) ''email'')
                                (get_prop (payload d) ''preferred_username''),
                      name = get_prop (payload d) ''name'',
                      authenticatedAt = now\<rparr>,
                   httpOnly = True,
                   secure = (env = Some ''production''),
                   sameSite = ''lax'',
                   maxAge = 24 * (60 * 60 * 1000)\<rparr>],
               body =
                 SuccessBody True ''Session initialized successfully''
                   \<lparr>user_name = get_prop (payload d) ''name'',
                    user_email = js_or (get_prop (payload d) ''email'')
                                   (get_prop (payload d) ''preferred_username''),
                    user_username = js_or (get_prop (payload d) ''preferred_username'')
                                      (get_prop (payload d) ''email'')\<rparr>\<rparr>)"
proof -
  have ne: "token_expired N now (payload d) = Inr False"
    using assms(3) by (simp add: token_expired_def)
  show ?thesis
  proof (cases "truthy (payload d)")
    case True
    with assms(1,2) ne show ?thesis
      by (simp add: initialize_session_decoded reject_def failed_def res0_def
          session_cookie_def success_body_def split: option.splits)
  next
    case False
    then have "get_prop (payload d) ''type'' = JUndefined"
      by (cases "payload d") simp_all
    with False assms(1,2) show ?thesis
      by (simp add: initialize_session_def reject_def res0_def)
  qed
qed

theorem missing_exp_never_expires_witness:
  "get_prop (sample_claims ''session_init'' []) ''exp'' = JUndefined \<and>
   initialize_session sample_decode sample_to_number sample_res_cookie None 999999999999
      (sample_request ''alice-noexp'') =
     \<lparr>status = 200,
      cookies =
        [\<lparr>cookie_name = ''session'',
          cookie_value = \<lparr>userId = JStr ''u-1'', email = JStr ''alice@example.com'',
                          name = JStr ''Alice'', authenticatedAt = 999999999999\<rparr>,
          httpOnly = True, secure = False, sameSite = ''lax'', maxAge = 86400000\<rparr>],
      body =
        SuccessBody True ''Session initialized successfully''
          \<lparr>user_name = JStr ''Alice'', user_email = JStr ''alice@example.com'',
           user_username = JStr ''alice@example.com''\<rparr>\<rparr>"
  using missing_exp_never_expires[where b = "sample_request ''alice-noexp''" and J = sample_decode
      and d = "\<lparr>header = sample_header, payload = sample_claims ''session_init'' [],
                signature = ''c2ln''\<rparr>"
      and N = sample_to_number and C = sample_res_cookie and now = 999999999999 and env = None]
  by (simp add: sample_decode_def sample_request_def sample_claims_def sample_res_cookie_def
      session_cookie_def js_or_def)

end
